theory Spec2Isabelle
  imports Complex_Main
begin

section \<open>Python values\<close>

text \<open>
  A Python \<open>str\<close> holding data (a polygon name, the text of the points column) is the
  list of its code points, so that \<open>len\<close> counts what Python counts. The messages of
  the exceptions are ASCII literals of the source and are kept as HOL strings.
\<close>

type_synonym pystr = "nat list"

text \<open>
  A Python \<open>float\<close>. A finite double is represented by its exact rational value (the
  two zeros are not told apart); the code only compares floats and takes absolute
  values, and both are exact on doubles.
\<close>

datatype pyfloat = Finite rat | PosInf | NegInf | NaN

datatype pyval =
    PNone
  | PBool bool
  | PInt int
  | PFloat pyfloat
  | PStr pystr
  | PList "pyval list"
  | PDict "(pystr \<times> pyval) list"

text \<open>\<open>==\<close>, \<open>!=\<close>, \<open>>\<close>, \<open><=\<close> and \<open>abs\<close> on numbers: NaN compares unequal to everything.\<close>

definition fl_eq :: "pyfloat \<Rightarrow> pyfloat \<Rightarrow> bool" where
  "fl_eq a b = (a \<noteq> NaN \<and> b \<noteq> NaN \<and> a = b)"

definition fl_ne :: "pyfloat \<Rightarrow> pyfloat \<Rightarrow> bool" where
  "fl_ne a b = (\<not> fl_eq a b)"

fun fl_gt :: "pyfloat \<Rightarrow> pyfloat \<Rightarrow> bool" where
  "fl_gt NaN _ = False"
| "fl_gt _ NaN = False"
| "fl_gt (Finite a) (Finite b) = (a > b)"
| "fl_gt _ PosInf = False"
| "fl_gt NegInf _ = False"
| "fl_gt PosInf _ = True"
| "fl_gt (Finite a) NegInf = True"

fun fl_le :: "pyfloat \<Rightarrow> pyfloat \<Rightarrow> bool" where
  "fl_le NaN _ = False"
| "fl_le _ NaN = False"
| "fl_le (Finite a) (Finite b) = (a \<le> b)"
| "fl_le _ PosInf = True"
| "fl_le NegInf _ = True"
| "fl_le PosInf _ = False"
| "fl_le (Finite a) NegInf = False"

fun fl_abs :: "pyfloat \<Rightarrow> pyfloat" where
  "fl_abs (Finite a) = Finite \<bar>a\<bar>"
| "fl_abs PosInf = PosInf"
| "fl_abs NegInf = PosInf"
| "fl_abs NaN = NaN"

text \<open>
  \<open>isinstance(v, (int, float))\<close> and the numeric value of \<open>v\<close>: \<open>bool\<close> is a subclass of
  \<open>int\<close>, with \<open>True == 1\<close> and \<open>False == 0\<close>. Python compares an \<open>int\<close> with a
  \<open>float\<close> by their exact values.
\<close>

fun py_num :: "pyval \<Rightarrow> pyfloat option" where
  "py_num (PBool b) = Some (Finite (if b then 1 else 0))"
| "py_num (PInt i) = Some (Finite (of_int i))"
| "py_num (PFloat f) = Some f"
| "py_num _ = None"

text \<open>\<open>len(v)\<close>: \<open>None\<close> stands for the \<open>TypeError\<close> of an object without a length.\<close>

fun py_len :: "pyval \<Rightarrow> nat option" where
  "py_len (PStr s) = Some (length s)"
| "py_len (PList xs) = Some (length xs)"
| "py_len (PDict kvs) = Some (length kvs)"
| "py_len _ = None"

text \<open>\<open>for x in v\<close>: a list yields its elements, a string its characters, a dict its keys.\<close>

fun py_iter :: "pyval \<Rightarrow> pyval list" where
  "py_iter (PList xs) = xs"
| "py_iter (PStr s) = map (\<lambda>c. PStr [c]) s"
| "py_iter (PDict kvs) = map (\<lambda>kv. PStr (fst kv)) kvs"
| "py_iter _ = []"

fun is_list :: "pyval \<Rightarrow> bool" where
  "is_list (PList _) = True"
| "is_list _ = False"

text \<open>
  \<open>str.strip()\<close> removes the leading and the trailing whitespace; \<open>is_space\<close> is the
  set of code points that Python treats as whitespace.
\<close>

definition is_space :: "nat \<Rightarrow> bool" where
  "is_space c = (c \<in> set [9, 10, 11, 12, 13, 28, 29, 30, 31, 32, 133, 160, 5760,
     8192, 8193, 8194, 8195, 8196, 8197, 8198, 8199, 8200, 8201, 8202,
     8232, 8233, 8239, 8287, 12288])"

definition py_strip :: "pystr \<Rightarrow> pystr" where
  "py_strip s = rev (dropWhile is_space (rev (dropWhile is_space s)))"

text \<open>\<open>str(n)\<close> of an \<open>int\<close>, as an f-string interpolates it.\<close>

definition digit_char :: "nat \<Rightarrow> char" where
  "digit_char d = ''0123456789'' ! d"

fun str_nat :: "nat \<Rightarrow> string" where
  "str_nat n = (if n < 10 then [digit_char n] else str_nat (n div 10) @ [digit_char (n mod 10)])"

declare str_nat.simps [simp del]

definition str_int :: "int \<Rightarrow> string" where
  "str_int i = (if i < 0 then CHR ''-'' # str_nat (nat (- i)) else str_nat (nat i))"

text \<open>
  What the code takes from the Python library: \<open>json.dumps\<close>, \<open>json.loads\<close> (\<open>None\<close>
  when it raises) and the text an f-string gives for a \<open>float\<close>.
\<close>

record pylib =
  json_dumps :: "pyval \<Rightarrow> pystr"
  json_loads :: "pystr \<Rightarrow> pyval option"
  float_str :: "pyfloat \<Rightarrow> string"

section \<open>Settings\<close>

record settings =
  max_coordinate :: pyfloat
  max_name_length :: int
  max_points_count :: int
  min_points_count :: int

definition default_settings :: settings where
  "default_settings = \<lparr>max_coordinate = Finite 1000000, max_name_length = 255,
     max_points_count = 10000, min_points_count = 3\<rparr>"

section \<open>The model class and its column type\<close>

datatype error = ValueError string | TypeError | IntegrityError

record polygon =
  polygon_id :: "int option"
  polygon_name :: pystr
  polygon_points :: pyval

text \<open>\<open>JSONEncodedList\<close>: the value of the attribute is \<open>PNone\<close> for Python's \<open>None\<close>; the
  column holds a text or NULL.\<close>

definition process_bind_param :: "pylib \<Rightarrow> pyval \<Rightarrow> pystr option" where
  "process_bind_param lib v = (if v = PNone then None else Some (json_dumps lib v))"

definition process_result_value :: "pylib \<Rightarrow> pystr option \<Rightarrow> pyval" where
  "process_result_value lib v =
     (case v of
        None \<Rightarrow> PNone
      | Some t \<Rightarrow>
          if py_strip t = [] then PNone
          else (case json_loads lib t of
                  None \<Rightarrow> PList []
                | Some d \<Rightarrow> if \<not> is_list d then PList [] else d))"

section \<open>The table and the repository\<close>

text \<open>
  The session \<open>db\<close> is modelled as the content of the table \<open>polygons\<close> in SQLite, the
  engine of the default \<open>database_url\<close>: the rows are kept in a b-tree keyed by the
  integer primary key and a scan of the table walks it in key order; a row inserted
  without a key gets 1 in an empty table and one more than the largest key otherwise.
  Both columns are \<open>NOT NULL\<close>. Keys are unbounded integers here, a failing connection
  is not modelled, and \<open>time.sleep\<close> has no effect on the values computed.
\<close>

record row =
  row_id :: int
  row_name :: pystr
  row_points :: pystr

type_synonym db = "row list"

fun next_rowid :: "db \<Rightarrow> int" where
  "next_rowid [] = 1"
| "next_rowid (r # rs) = fold max (map row_id rs) (row_id r) + 1"

text \<open>What the ORM builds from a row when it loads it.\<close>

definition load :: "pylib \<Rightarrow> row \<Rightarrow> polygon" where
  "load lib r = \<lparr>polygon_id = Some (row_id r), polygon_name = row_name r,
     polygon_points = process_result_value lib (Some (row_points r))\<rparr>"

definition find_all :: "pylib \<Rightarrow> db \<Rightarrow> polygon list" where
  "find_all lib db = map (load lib) db"

definition find_by_id :: "pylib \<Rightarrow> db \<Rightarrow> int \<Rightarrow> polygon option" where
  "find_by_id lib db pid = map_option (load lib) (find (\<lambda>r. row_id r = pid) db)"

text \<open>\<open>add\<close>, \<open>commit\<close> and \<open>refresh\<close>: the row is inserted and the object is read back
  from it.\<close>

definition save :: "pylib \<Rightarrow> db \<Rightarrow> polygon \<Rightarrow> (error + polygon) \<times> db" where
  "save lib db p =
     (case process_bind_param lib (polygon_points p) of
        None \<Rightarrow> (Inl IntegrityError, db)
      | Some t \<Rightarrow>
          (case polygon_id p of
             Some i \<Rightarrow>
               if i \<in> set (map row_id db) then (Inl IntegrityError, db)
               else (let r = \<lparr>row_id = i, row_name = polygon_name p, row_points = t\<rparr>
                     in (Inr (load lib r), insort_key row_id r db))
           | None \<Rightarrow>
               (let r = \<lparr>row_id = next_rowid db, row_name = polygon_name p, row_points = t\<rparr>
                in (Inr (load lib r), insort_key row_id r db))))"

definition delete_by_id :: "db \<Rightarrow> int \<Rightarrow> int \<times> db" where
  "delete_by_id db pid =
     (int (length (filter (\<lambda>r. row_id r = pid) db)), filter (\<lambda>r. row_id r \<noteq> pid) db)"

definition count :: "db \<Rightarrow> int" where
  "count db = int (length db)"

section \<open>The service\<close>

text \<open>The inner loop of \<open>_validate_points\<close>, over the coordinates of one point.\<close>

fun validate_coordinates :: "settings \<Rightarrow> pylib \<Rightarrow> pyval list \<Rightarrow> error option" where
  "validate_coordinates st lib [] = None"
| "validate_coordinates st lib (c # cs) =
     (if c = PNone then Some (ValueError ''Coordinate cannot be null'')
      else (case py_num c of
              None \<Rightarrow> Some (ValueError ''Coordinate must be a number'')
            | Some x \<Rightarrow>
                if fl_ne x x then Some (ValueError ''Coordinate cannot be NaN'')
                else if fl_eq x PosInf \<or> fl_eq x NegInf
                  then Some (ValueError ''Coordinate cannot be Infinite'')
                else if fl_gt (fl_abs x) (max_coordinate st)
                  then Some (ValueError (''Coordinate value too large. Maximum allowed: ''
                                          @ float_str lib (max_coordinate st)))
                else validate_coordinates st lib cs))"

text \<open>The outer loop, over the points.\<close>

fun validate_point_loop :: "settings \<Rightarrow> pylib \<Rightarrow> pyval list \<Rightarrow> error option" where
  "validate_point_loop st lib [] = None"
| "validate_point_loop st lib (p # ps) =
     (if p = PNone then Some (ValueError ''Each point must have exactly 2 coordinates [x, y]'')
      else (case py_len p of
              None \<Rightarrow> Some TypeError
            | Some n \<Rightarrow>
                if n \<noteq> 2
                  then Some (ValueError ''Each point must have exactly 2 coordinates [x, y]'')
                else (case validate_coordinates st lib (py_iter p) of
                        Some e \<Rightarrow> Some e
                      | None \<Rightarrow> validate_point_loop st lib ps)))"

definition validate_points :: "settings \<Rightarrow> pylib \<Rightarrow> pyval list \<Rightarrow> error option" where
  "validate_points st lib points =
     (if int (length points) > max_points_count st
        then Some (ValueError (''Too many points. Maximum allowed: ''
                                @ str_int (max_points_count st)))
      else validate_point_loop st lib points)"

definition get_all_polygons :: "pylib \<Rightarrow> db \<Rightarrow> polygon list \<times> db" where
  "get_all_polygons lib db = (find_all lib db, db)"

definition create_polygon ::
  "settings \<Rightarrow> pylib \<Rightarrow> db \<Rightarrow> pystr \<Rightarrow> pyval list \<Rightarrow> (error + polygon) \<times> db" where
  "create_polygon st lib db name points =
     (if name = [] \<or> py_strip name = []
        then (Inl (ValueError ''Polygon name is required''), db)
      else if int (length name) > max_name_length st
        then (Inl (ValueError (''Polygon name too long. Maximum allowed: ''
                                @ str_int (max_name_length st) @ '' characters'')), db)
      else if points = []
        then (Inl (ValueError ''Polygon points are required''), db)
      else if length points < 3
        then (Inl (ValueError ''Polygon must have at least 3 points''), db)
      else (case validate_points st lib points of
              Some e \<Rightarrow> (Inl e, db)
            | None \<Rightarrow>
                save lib db \<lparr>polygon_id = None, polygon_name = name,
                              polygon_points = PList points\<rparr>))"

definition delete_polygon :: "db \<Rightarrow> int \<Rightarrow> bool \<times> db" where
  "delete_polygon db pid =
     (case delete_by_id db pid of (deleted_count, db') \<Rightarrow> (deleted_count > 0, db'))"

section \<open>The controller\<close>

text \<open>
  The handlers run on a request that the framework has already parsed; the 422 of a
  body or path parameter that does not parse is the framework's and is not modelled.
\<close>

datatype body =
    Polygons "polygon list"
  | PolygonResponse polygon
  | DeleteResponse string int
  | Detail string

record response =
  status_code :: int
  content :: body

record CreatePolygonRequest =
  request_name :: pystr
  request_points :: "pyval list"

definition get_all_polygons_endpoint :: "pylib \<Rightarrow> db \<Rightarrow> response \<times> db" where
  "get_all_polygons_endpoint lib db =
     (case get_all_polygons lib db of
        (polygons, db') \<Rightarrow> (\<lparr>status_code = 200, content = Polygons polygons\<rparr>, db'))"

definition create_polygon_endpoint ::
  "settings \<Rightarrow> pylib \<Rightarrow> db \<Rightarrow> CreatePolygonRequest \<Rightarrow> response \<times> db" where
  "create_polygon_endpoint st lib db request =
     (case create_polygon st lib db (request_name request) (request_points request) of
        (Inr p, db') \<Rightarrow> (\<lparr>status_code = 201, content = PolygonResponse p\<rparr>, db')
      | (Inl (ValueError msg), db') \<Rightarrow> (\<lparr>status_code = 400, content = Detail msg\<rparr>, db')
      | (Inl _, db') \<Rightarrow>
          (\<lparr>status_code = 500, content = Detail ''Failed to create polygon''\<rparr>, db'))"


section \<open>Histories of service calls\<close>

text \<open>A table the application can reach: the empty table after any sequence of calls of
  \<open>create_polygon\<close> and \<open>delete_polygon\<close>, whatever each call returned.\<close>

datatype op = Create pystr "pyval list" | Delete int

fun step :: "settings \<Rightarrow> pylib \<Rightarrow> db \<Rightarrow> op \<Rightarrow> db" where
  "step st lib db (Create n ps) = snd (create_polygon st lib db n ps)"
| "step st lib db (Delete pid) = snd (delete_polygon db pid)"

definition run :: "settings \<Rightarrow> pylib \<Rightarrow> op list \<Rightarrow> db" where
  "run st lib ops = foldl (step st lib) [] ops"

section \<open>Predicates of the specification\<close>

text \<open>
  The table as the application leaves it: the keys are positive and strictly
  increasing in scan order. Every table of \<open>run\<close> satisfies this (lemma \<open>db_inv_run\<close>
  below).
\<close>

definition db_inv :: "db \<Rightarrow> bool" where
  "db_inv db = (sorted_wrt (<) (map row_id db) \<and> list_all (\<lambda>r. 0 < row_id r) db)"

text \<open>A coordinate is valid when it is a finite number whose absolute value is at most the
  configured maximum; a point is valid when it is a pair of valid coordinates.\<close>

definition valid_coordinate :: "settings \<Rightarrow> pyval \<Rightarrow> bool" where
  "valid_coordinate st c =
     (case py_num c of
        Some (Finite q) \<Rightarrow> fl_le (Finite \<bar>q\<bar>) (max_coordinate st)
      | _ \<Rightarrow> False)"

fun valid_point :: "settings \<Rightarrow> pyval \<Rightarrow> bool" where
  "valid_point st (PList [x, y]) = (valid_coordinate st x \<and> valid_coordinate st y)"
| "valid_point st _ = False"



text \<open>Decoding a stored text fails: \<open>json.loads\<close> raises, or what it returns is not a list.\<close>

definition decode_fails :: "pylib \<Rightarrow> pystr \<Rightarrow> bool" where
  "decode_fails lib t = (case json_loads lib t of None \<Rightarrow> True | Some d \<Rightarrow> \<not> is_list d)"

text \<open>A well-formed point is a pair of finite numbers; a coordinate is too large when its
  absolute value exceeds the configured maximum.\<close>

definition finite_number :: "pyval \<Rightarrow> bool" where
  "finite_number c = (case py_num c of Some (Finite q) \<Rightarrow> True | _ \<Rightarrow> False)"

definition too_large :: "settings \<Rightarrow> pyval \<Rightarrow> bool" where
  "too_large st c =
     (case py_num c of Some x \<Rightarrow> fl_gt (fl_abs x) (max_coordinate st) | None \<Rightarrow> False)"

fun number_pair :: "pyval \<Rightarrow> bool" where
  "number_pair (PList [x, y]) = (finite_number x \<and> finite_number y)"
| "number_pair _ = False"

definition too_large_message :: "settings \<Rightarrow> pylib \<Rightarrow> string" where
  "too_large_message st lib =
     ''Coordinate value too large. Maximum allowed: '' @ float_str lib (max_coordinate st)"

text \<open>A point whose two coordinates are booleans.\<close>

fun bool_point :: "pyval \<Rightarrow> bool" where
  "bool_point (PList [PBool a, PBool b]) = True"
| "bool_point _ = False"

subsection \<open>Concrete inputs\<close>

text \<open>
  The code points of an ASCII literal, some lists of three points, a row, a history
  of three calls, and a finite extract of the Python library: \<open>sample_json\<close> lists
  values with the text \<open>json.dumps\<close> gives for each, and \<open>float_str\<close> knows the text
  of the default maximum coordinate. Only these entries are used below; on any
  other argument \<open>sample_lib\<close> answers as for a value or a text it cannot handle.
\<close>

definition cps :: "string \<Rightarrow> pystr" where
  "cps s = map of_char s"

definition triangle :: "pyval list" where
  "triangle = [PList [PInt 0, PInt 0], PList [PInt 10, PInt 0], PList [PInt 5, PInt 10]]"

definition bool_triangle :: "pyval list" where
  "bool_triangle = [PList [PBool True, PBool False], PList [PBool True, PBool True],
     PList [PBool False, PBool False]]"

definition big_triangle :: "pyval list" where
  "big_triangle = [PList [PFloat (Finite 0), PFloat (Finite 0)],
     PList [PFloat (Finite 10000000000), PFloat (Finite 0)],
     PList [PFloat (Finite 5), PFloat (Finite 10)]]"

definition sample_json :: "(pyval \<times> pystr) list" where
  "sample_json =
     [(PList triangle, cps ''[[0, 0], [10, 0], [5, 10]]''),
      (PList bool_triangle, cps ''[[true, false], [true, true], [false, false]]''),
      (PDict [], cps ''{}'')]"

definition sample_lib :: pylib where
  "sample_lib = \<lparr>
     json_dumps = (\<lambda>v. case map_of sample_json v of Some t \<Rightarrow> t | None \<Rightarrow> cps ''null''),
     json_loads = (\<lambda>t. map_of (map (\<lambda>(v, t). (t, v)) sample_json) t),
     float_str = (\<lambda>f. if f = Finite 1000000 then ''1000000.0'' else ''nan'')\<rparr>"

definition sample_row :: row where
  "sample_row = \<lparr>row_id = 1, row_name = [80],
     row_points = cps ''[[0, 0], [10, 0], [5, 10]]''\<rparr>"

definition sample_ops :: "op list" where
  "sample_ops = [Create [80] triangle, Create [81] bool_triangle, Delete 1]"

section \<open>Lemmas on the table\<close>

lemma fold_max_ge: "(a::int) \<le> fold max xs a \<and> (\<forall>x\<in>set xs. x \<le> fold max xs a)"
proof (induction xs arbitrary: a)
  case Nil
  show ?case by simp
next
  case (Cons y ys)
  have "max y a \<le> fold max ys (max y a)" using Cons.IH by blast
  moreover have "\<forall>x\<in>set ys. x \<le> fold max ys (max y a)" using Cons.IH by blast
  ultimately show ?case by auto
qed

lemma next_rowid_gt: "r \<in> set db \<Longrightarrow> row_id r < next_rowid db"
proof (cases db)
  case Nil
  assume "r \<in> set db"
  with Nil show ?thesis by simp
next
  case (Cons r0 rs)
  assume "r \<in> set db"
  then have "row_id r = row_id r0 \<or> row_id r \<in> set (map row_id rs)"
    using Cons by auto
  then have "row_id r \<le> fold max (map row_id rs) (row_id r0)"
    using fold_max_ge [of "row_id r0" "map row_id rs"] by auto
  then show ?thesis using Cons by simp
qed

lemma next_rowid_pos: "list_all (\<lambda>r. 0 < row_id r) db \<Longrightarrow> 0 < next_rowid db"
proof (cases db)
  case Nil
  then show ?thesis by simp
next
  case (Cons r0 rs)
  assume "list_all (\<lambda>r. 0 < row_id r) db"
  then have "0 < row_id r0" using Cons by simp
  moreover have "row_id r0 \<le> fold max (map row_id rs) (row_id r0)"
    using fold_max_ge by blast
  ultimately show ?thesis using Cons by simp
qed

lemma insort_key_append:
  "\<forall>x\<in>set db. row_id x < row_id r \<Longrightarrow> insort_key row_id r db = db @ [r]"
  by (induction db) auto

lemma db_inv_empty: "db_inv []"
  by (simp add: db_inv_def)

lemma db_inv_append:
  "db_inv db \<Longrightarrow> 0 < row_id r \<Longrightarrow> \<forall>x\<in>set db. row_id x < row_id r \<Longrightarrow> db_inv (db @ [r])"
  by (auto simp: db_inv_def sorted_wrt_append)

lemma db_inv_filter: "db_inv db \<Longrightarrow> db_inv (filter P db)"
  by (auto simp: db_inv_def sorted_wrt_map sorted_wrt_filter list_all_iff)


lemma save_new:
  "save lib db \<lparr>polygon_id = None, polygon_name = n, polygon_points = PList ps\<rparr> =
     (let r = \<lparr>row_id = next_rowid db, row_name = n, row_points = json_dumps lib (PList ps)\<rparr>
      in (Inr (load lib r), insort_key row_id r db))"
  by (simp add: save_def process_bind_param_def)

lemma save_appends:
  assumes "db_inv db"
  shows "save lib db \<lparr>polygon_id = None, polygon_name = n, polygon_points = PList ps\<rparr> =
     (Inr (load lib \<lparr>row_id = next_rowid db, row_name = n,
                      row_points = json_dumps lib (PList ps)\<rparr>),
      db @ [\<lparr>row_id = next_rowid db, row_name = n, row_points = json_dumps lib (PList ps)\<rparr>])"
proof -
  have "\<forall>x\<in>set db. row_id x < next_rowid db"
    using next_rowid_gt by blast
  then show ?thesis
    by (simp add: save_new insort_key_append Let_def)
qed

lemma db_inv_save:
  assumes "db_inv db"
  shows "db_inv (snd (save lib db
           \<lparr>polygon_id = None, polygon_name = n, polygon_points = PList ps\<rparr>))"
proof -
  have "\<forall>x\<in>set db. row_id x < next_rowid db"
    using next_rowid_gt by blast
  moreover have "0 < next_rowid db"
    using assms by (simp add: db_inv_def next_rowid_pos)
  ultimately show ?thesis
    using assms by (simp add: save_appends db_inv_append)
qed

lemma delete_polygon_snd: "snd (delete_polygon db pid) = filter (\<lambda>r. row_id r \<noteq> pid) db"
  by (simp add: delete_polygon_def delete_by_id_def)



section \<open>Lemmas on the validation\<close>

lemma fl_le_not_gt: "fl_le a b \<Longrightarrow> \<not> fl_gt a b"
  by (cases a; cases b) auto

lemma fl_le_Finite_mono: "a \<le> b \<Longrightarrow> fl_le (Finite b) m \<Longrightarrow> fl_le (Finite a) m"
  by (cases m) auto

lemma validate_coordinates_valid:
  "list_all (valid_coordinate st) cs \<Longrightarrow> validate_coordinates st lib cs = None"
proof (induction cs)
  case Nil
  show ?case by simp
next
  case (Cons c cs)
  from Cons.prems have c: "valid_coordinate st c" and cs: "list_all (valid_coordinate st) cs"
    by simp_all
  from c obtain q where q: "py_num c = Some (Finite q)"
    and le: "fl_le (Finite \<bar>q\<bar>) (max_coordinate st)"
    by (auto simp: valid_coordinate_def split: option.splits pyfloat.splits)
  from q have "c \<noteq> PNone" by auto
  moreover have "\<not> fl_gt (fl_abs (Finite q)) (max_coordinate st)"
    using le by (simp add: fl_le_not_gt)
  ultimately show ?case
    using q Cons.IH [OF cs] by (simp add: fl_ne_def fl_eq_def)
qed

lemma valid_point_pair:
  "valid_point st p \<Longrightarrow> \<exists>x y. p = PList [x, y] \<and> valid_coordinate st x \<and> valid_coordinate st y"
  by (induction st p rule: valid_point.induct) simp_all

lemma validate_point_loop_valid:
  "list_all (valid_point st) ps \<Longrightarrow> validate_point_loop st lib ps = None"
proof (induction ps)
  case Nil
  show ?case by simp
next
  case (Cons p ps)
  from Cons.prems obtain x y where p: "p = PList [x, y]"
    and xy: "valid_coordinate st x" "valid_coordinate st y"
    using valid_point_pair by fastforce
  have "validate_coordinates st lib [x, y] = None"
    using xy by (intro validate_coordinates_valid) simp
  then show ?case using p Cons by simp
qed

lemma validate_points_valid:
  "list_all (valid_point st) ps \<Longrightarrow> int (length ps) \<le> max_points_count st \<Longrightarrow>
   validate_points st lib ps = None"
  by (simp add: validate_points_def validate_point_loop_valid)

lemma bool_point_valid:
  "fl_le (Finite 1) (max_coordinate st) \<Longrightarrow> bool_point p \<Longrightarrow> valid_point st p"
proof (induction p rule: bool_point.induct)
  case (1 a b)
  have "\<And>c. valid_coordinate st (PBool c)"
    using 1(1) fl_le_Finite_mono [of 0 1 "max_coordinate st"]
    by (simp add: valid_coordinate_def)
  then show ?case by simp
qed simp_all

text \<open>With well-formed points the only error left is the one of the magnitude check.\<close>

lemma validate_coordinates_finite:
  "list_all finite_number cs \<Longrightarrow>
   validate_coordinates st lib cs =
     (if list_ex (too_large st) cs then Some (ValueError (too_large_message st lib)) else None)"
proof (induction cs)
  case Nil
  show ?case by simp
next
  case (Cons c cs)
  from Cons.prems obtain q where q: "py_num c = Some (Finite q)"
    by (auto simp: finite_number_def split: option.splits pyfloat.splits)
  then have "c \<noteq> PNone" by auto
  then show ?case
    using q Cons by (simp add: too_large_def too_large_message_def fl_ne_def fl_eq_def)
qed

lemma number_pair_form:
  "number_pair p \<Longrightarrow> \<exists>x y. p = PList [x, y] \<and> finite_number x \<and> finite_number y"
  by (induction p rule: number_pair.induct) simp_all

lemma validate_point_loop_too_large:
  "list_all number_pair ps \<Longrightarrow> list_ex (\<lambda>p. list_ex (too_large st) (py_iter p)) ps \<Longrightarrow>
   validate_point_loop st lib ps = Some (ValueError (too_large_message st lib))"
proof (induction ps)
  case Nil
  then show ?case by simp
next
  case (Cons p ps)
  from Cons.prems(1) obtain x y where p: "p = PList [x, y]"
    and xy: "finite_number x" "finite_number y"
    using number_pair_form by fastforce
  have v: "validate_coordinates st lib [x, y] =
      (if list_ex (too_large st) [x, y] then Some (ValueError (too_large_message st lib))
       else None)"
    using xy by (intro validate_coordinates_finite) simp
  show ?case
  proof (cases "list_ex (too_large st) [x, y]")
    case True
    then show ?thesis using p v by simp
  next
    case False
    with Cons.prems(2) p have "list_ex (\<lambda>p. list_ex (too_large st) (py_iter p)) ps"
      by simp
    with Cons have "validate_point_loop st lib ps = Some (ValueError (too_large_message st lib))"
      by simp
    then show ?thesis using p v False by simp
  qed
qed





text \<open>The setting \<open>min_points_count\<close> is read nowhere.\<close>

lemma validate_coordinates_min:
  "validate_coordinates (st\<lparr>min_points_count := m\<rparr>) lib cs = validate_coordinates st lib cs"
  by (induction cs) (simp_all split: option.splits)

lemma validate_point_loop_min:
  "validate_point_loop (st\<lparr>min_points_count := m\<rparr>) lib ps = validate_point_loop st lib ps"
  by (induction ps) (simp_all add: validate_coordinates_min split: option.splits)

lemma min_points_count_ignored:
  "create_polygon (st\<lparr>min_points_count := m\<rparr>) lib db name ps =
   create_polygon st lib db name ps"
  by (simp add: create_polygon_def validate_points_def validate_point_loop_min)

section \<open>Lemmas on the service\<close>

lemma py_strip_Nil: "py_strip [] = []"
  by (simp add: py_strip_def)



lemma create_polygon_saves:
  assumes "py_strip name \<noteq> []" and "int (length name) \<le> max_name_length st"
    and "3 \<le> length ps" and "validate_points st lib ps = None"
  shows "create_polygon st lib db name ps =
     save lib db \<lparr>polygon_id = None, polygon_name = name, polygon_points = PList ps\<rparr>"
proof -
  from assms(1) have "name \<noteq> []" using py_strip_Nil by auto
  moreover from assms(3) have "ps \<noteq> []" by auto
  ultimately show ?thesis using assms by (simp add: create_polygon_def)
qed

lemma create_polygon_cases:
  "(\<exists>e. create_polygon st lib db n ps = (Inl e, db))
   \<or> create_polygon st lib db n ps =
       save lib db \<lparr>polygon_id = None, polygon_name = n, polygon_points = PList ps\<rparr>"
  by (simp add: create_polygon_def split: option.splits)

lemma create_polygon_success:
  assumes "db_inv db" and "fst (create_polygon st lib db n ps) = Inr p"
  shows "snd (create_polygon st lib db n ps) =
           db @ [\<lparr>row_id = next_rowid db, row_name = n, row_points = json_dumps lib (PList ps)\<rparr>]
         \<and> p = load lib \<lparr>row_id = next_rowid db, row_name = n,
                           row_points = json_dumps lib (PList ps)\<rparr>"
  using create_polygon_cases [of st lib db n ps] assms(2)
  by (auto simp: save_appends [OF assms(1)])

lemma db_inv_create: "db_inv db \<Longrightarrow> db_inv (snd (create_polygon st lib db n ps))"
  using create_polygon_cases [of st lib db n ps] db_inv_save [of db lib n ps]
  by auto

lemma db_inv_step: "db_inv db \<Longrightarrow> db_inv (step st lib db x)"
  by (cases x) (simp_all add: db_inv_create delete_polygon_snd db_inv_filter)

lemma db_inv_foldl: "db_inv db \<Longrightarrow> db_inv (foldl (step st lib) db ops)"
  by (induction ops arbitrary: db) (simp_all add: db_inv_step)

lemma db_inv_run: "db_inv (run st lib ops)"
  by (simp add: run_def db_inv_foldl db_inv_empty)


lemma run_sample_ops:
  "run default_settings sample_lib sample_ops =
     [\<lparr>row_id = 2, row_name = [81],
       row_points = cps ''[[true, false], [true, true], [false, false]]''\<rparr>]"
  by (simp add: run_def sample_ops_def create_polygon_def validate_points_def
      default_settings_def py_strip_def is_space_def triangle_def bool_triangle_def
      save_def process_bind_param_def delete_polygon_def delete_by_id_def
      sample_lib_def sample_json_def fl_ne_def fl_eq_def Let_def cps_def)

section \<open>Creation of a valid polygon\<close>



section \<open>The bound on the length of the name\<close>




section \<open>The minimum number of points\<close>

text \<open>
  Claim C3 says that \<open>create_polygon\<close> rejects a points list shorter than the
  configured \<open>min_points_count\<close>. The service compares the length with the constant 3
  and never reads the setting: with \<open>min_points_count = 4\<close> and three valid points the
  polygon is created.
\<close>

theorem min_points_count_not_applied:
  "min_points_count (default_settings\<lparr>min_points_count := 4\<rparr>) = 4 \<and> length triangle = 3
   \<and> fst (create_polygon (default_settings\<lparr>min_points_count := 4\<rparr>) sample_lib [] [80]
            triangle) =
       Inr \<lparr>polygon_id = Some 1, polygon_name = [80], polygon_points = PList triangle\<rparr>"
  by (simp add: create_polygon_def validate_points_def default_settings_def py_strip_def
      is_space_def triangle_def save_def process_bind_param_def load_def
      process_result_value_def sample_lib_def sample_json_def cps_def bool_triangle_def
      fl_ne_def fl_eq_def)

section \<open>The order of the listing\<close>

text \<open>
  Claim C4. In every table \<open>db\<close> that a history of service calls leaves, \<open>find_all\<close>
  returns one polygon for each stored row, with the primary keys strictly ascending;
  this is the order of insertion, since a polygon that \<open>create_polygon\<close> stores comes
  last in the next listing and \<open>delete_polygon\<close> only removes from the listing.
  Listing does not change the table, so that listing twice gives the same polygons
  in the same order.
\<close>

theorem find_all_insertion_order:
  assumes "db = run st lib ops"
  shows "map polygon_id (find_all lib db) = map (\<lambda>r. Some (row_id r)) db
    \<and> sorted_wrt (<) (map row_id db)
    \<and> (fst (create_polygon st lib db n ps) = Inr p \<longrightarrow>
         find_all lib (snd (create_polygon st lib db n ps)) = find_all lib db @ [p])
    \<and> find_all lib (snd (delete_polygon db pid)) =
        filter (\<lambda>q. polygon_id q \<noteq> Some pid) (find_all lib db)
    \<and> get_all_polygons lib (snd (get_all_polygons lib db)) = get_all_polygons lib db"
proof -
  have inv: "db_inv db"
    using assms db_inv_run by simp
  have a: "map polygon_id (find_all lib db) = map (\<lambda>r. Some (row_id r)) db"
    by (simp add: find_all_def load_def)
  have b: "sorted_wrt (<) (map row_id db)"
    using inv by (simp add: db_inv_def)
  have c: "fst (create_polygon st lib db n ps) = Inr p \<longrightarrow>
         find_all lib (snd (create_polygon st lib db n ps)) = find_all lib db @ [p]"
    using create_polygon_success [OF inv] by (simp add: find_all_def)
  have d: "find_all lib (snd (delete_polygon db pid)) =
        filter (\<lambda>q. polygon_id q \<noteq> Some pid) (find_all lib db)"
    by (simp add: delete_polygon_snd find_all_def filter_map comp_def load_def)
  have e: "get_all_polygons lib (snd (get_all_polygons lib db)) = get_all_polygons lib db"
    by (simp add: get_all_polygons_def)
  show ?thesis
    using a b c d e by simp
qed

theorem find_all_insertion_order_witness:
  "map polygon_id (find_all sample_lib (run default_settings sample_lib sample_ops)) = [Some 2]
   \<and> fst (create_polygon default_settings sample_lib
            (run default_settings sample_lib sample_ops) [80] triangle) =
       Inr \<lparr>polygon_id = Some 3, polygon_name = [80], polygon_points = PList triangle\<rparr>
   \<and> map polygon_id (find_all sample_lib (snd (create_polygon default_settings sample_lib
            (run default_settings sample_lib sample_ops) [80] triangle))) = [Some 2, Some 3]"
proof -
  have h: "run default_settings sample_lib sample_ops =
      run default_settings sample_lib sample_ops"
    by simp
  have c: "fst (create_polygon default_settings sample_lib
            (run default_settings sample_lib sample_ops) [80] triangle) =
       Inr \<lparr>polygon_id = Some 3, polygon_name = [80], polygon_points = PList triangle\<rparr>"
    unfolding run_sample_ops
    by (simp add: create_polygon_def validate_points_def
        default_settings_def py_strip_def is_space_def triangle_def bool_triangle_def
        save_def process_bind_param_def load_def process_result_value_def
        sample_lib_def sample_json_def fl_ne_def fl_eq_def cps_def Let_def)
  show ?thesis
    using c find_all_insertion_order [OF h, where n = "[80]" and ps = triangle
        and p = "\<lparr>polygon_id = Some 3, polygon_name = [80], polygon_points = PList triangle\<rparr>"]
    by (simp add: run_sample_ops)
qed

section \<open>The name is checked first\<close>

text \<open>
  Claim C5. When the name is invalid (empty, blank after trimming, or longer than
  \<open>max_name_length\<close>), \<open>create_polygon\<close> raises the error of the name check, whatever
  the points are, and so also when the points are invalid.
\<close>

theorem name_checked_first:
  assumes "name = [] \<or> py_strip name = [] \<or> int (length name) > max_name_length st"
  shows "create_polygon st lib db name ps =
     (Inl (ValueError (if name = [] \<or> py_strip name = [] then ''Polygon name is required''
                       else ''Polygon name too long. Maximum allowed: ''
                            @ str_int (max_name_length st) @ '' characters'')), db)"
  using assms by (auto simp: create_polygon_def)

theorem name_checked_first_witness:
  "([32, 32] = [] \<or> py_strip [32, 32] = []
      \<or> int (length [32, 32::nat]) > max_name_length default_settings)
   \<and> validate_points default_settings sample_lib [PNone] \<noteq> None
   \<and> create_polygon default_settings sample_lib [] [32, 32] [PNone] =
       (Inl (ValueError ''Polygon name is required''), [])"
proof -
  have h: "[32, 32] = [] \<or> py_strip [32, 32] = []
      \<or> int (length [32, 32::nat]) > max_name_length default_settings"
    by (simp add: py_strip_def is_space_def)
  have s: "py_strip [32, 32] = []" by (simp add: py_strip_def is_space_def)
  show ?thesis
    using h s name_checked_first [OF h, where lib = sample_lib and db = "[]" and ps = "[PNone]"]
    by (simp add: validate_points_def default_settings_def)
qed

section \<open>Decoding failures of the points column\<close>

text \<open>
  Claim C6, as the code has it. For a stored text that is not blank and whose decoding
  fails (\<open>json.loads\<close> raises, or returns a value that is not a list) the decoder
  returns the empty list; for a blank text (empty, or whitespace only) it returns
  \<open>None\<close> instead, without decoding. The decoder is a total function to values: no
  exception of the decoding reaches its caller.
\<close>

theorem decode_failure_result:
  "(py_strip t = [] \<longrightarrow> process_result_value lib (Some t) = PNone)
   \<and> (py_strip t \<noteq> [] \<and> decode_fails lib t \<longrightarrow> process_result_value lib (Some t) = PList [])"
  by (auto simp: process_result_value_def decode_fails_def split: option.splits)

theorem decode_failure_result_witness:
  "py_strip [32] = [] \<and> process_result_value sample_lib (Some [32]) = PNone
   \<and> py_strip (cps ''{}'') \<noteq> [] \<and> decode_fails sample_lib (cps ''{}'')
   \<and> process_result_value sample_lib (Some (cps ''{}'')) = PList []
   \<and> py_strip (cps ''[[0,'') \<noteq> [] \<and> decode_fails sample_lib (cps ''[[0,'')
   \<and> process_result_value sample_lib (Some (cps ''[[0,'')) = PList []"
proof -
  have b: "py_strip [32] = []" by (simp add: py_strip_def is_space_def)
  have s1: "py_strip (cps ''{}'') \<noteq> []" by (simp add: py_strip_def is_space_def cps_def)
  have f1: "decode_fails sample_lib (cps ''{}'')"
    by (simp add: decode_fails_def sample_lib_def sample_json_def cps_def)
  have s2: "py_strip (cps ''[[0,'') \<noteq> []" by (simp add: py_strip_def is_space_def cps_def)
  have f2: "decode_fails sample_lib (cps ''[[0,'')"
    by (simp add: decode_fails_def sample_lib_def sample_json_def cps_def)
  show ?thesis
    using b s1 f1 s2 f2 decode_failure_result [of "[32]" sample_lib]
      decode_failure_result [of "cps ''{}''" sample_lib]
      decode_failure_result [of "cps ''[[0,''" sample_lib]
    by simp
qed

text \<open>
  Claim C6 as stated fails on the empty text: it is not a JSON document, so decoding
  it fails, and the decoder returns \<open>None\<close>, not the empty list.
\<close>

theorem blank_text_counterexample:
  "decode_fails sample_lib [] \<and> process_result_value sample_lib (Some []) \<noteq> PList []"
  by (simp add: decode_fails_def process_result_value_def py_strip_def sample_lib_def
      sample_json_def cps_def)

section \<open>Deletion\<close>



section \<open>A coordinate beyond the maximum\<close>

text \<open>
  Claim C8. Let a request be well-formed (a valid name, between 3 and
  \<open>max_points_count\<close> points, each a pair of finite numbers) and let one of its
  coordinates exceed \<open>max_coordinate\<close> in absolute value. Then \<open>create_polygon\<close>
  raises a validation error and leaves the table as it was, the endpoint answers
  400, and the message ends with the text of the configured maximum.
\<close>

theorem coordinate_too_large_rejected:
  assumes "py_strip name \<noteq> []" and "int (length name) \<le> max_name_length st"
    and "3 \<le> length ps" and "int (length ps) \<le> max_points_count st"
    and "list_all number_pair ps"
    and "list_ex (\<lambda>p. list_ex (too_large st) (py_iter p)) ps"
  shows "create_polygon st lib db name ps =
           (Inl (ValueError (''Coordinate value too large. Maximum allowed: ''
                             @ float_str lib (max_coordinate st))), db)
    \<and> create_polygon_endpoint st lib db \<lparr>request_name = name, request_points = ps\<rparr> =
           (\<lparr>status_code = 400,
             content = Detail (''Coordinate value too large. Maximum allowed: ''
                               @ float_str lib (max_coordinate st))\<rparr>, db)"
proof -
  from assms(1) have n: "name \<noteq> []" using py_strip_Nil by auto
  from assms(3) have p: "ps \<noteq> []" by auto
  have "validate_points st lib ps = Some (ValueError (too_large_message st lib))"
    using assms(4-6) by (simp add: validate_points_def validate_point_loop_too_large)
  then have c: "create_polygon st lib db name ps =
      (Inl (ValueError (too_large_message st lib)), db)"
    using assms(1-3) n p by (simp add: create_polygon_def)
  then show ?thesis
    by (simp add: create_polygon_endpoint_def too_large_message_def)
qed

theorem coordinate_too_large_rejected_witness:
  "py_strip [84] \<noteq> [] \<and> int (length [84::nat]) \<le> max_name_length default_settings
   \<and> 3 \<le> length big_triangle \<and> int (length big_triangle) \<le> max_points_count default_settings
   \<and> list_all number_pair big_triangle
   \<and> list_ex (\<lambda>p. list_ex (too_large default_settings) (py_iter p)) big_triangle
   \<and> create_polygon_endpoint default_settings sample_lib []
        \<lparr>request_name = [84], request_points = big_triangle\<rparr> =
       (\<lparr>status_code = 400,
         content = Detail ''Coordinate value too large. Maximum allowed: 1000000.0''\<rparr>, [])"
proof -
  have h1: "py_strip [84] \<noteq> []" by (simp add: py_strip_def is_space_def)
  have h2: "int (length [84::nat]) \<le> max_name_length default_settings"
    by (simp add: default_settings_def)
  have h3: "3 \<le> length big_triangle" by (simp add: big_triangle_def)
  have h4: "int (length big_triangle) \<le> max_points_count default_settings"
    by (simp add: big_triangle_def default_settings_def)
  have h5: "list_all number_pair big_triangle"
    by (simp add: big_triangle_def finite_number_def)
  have h6: "list_ex (\<lambda>p. list_ex (too_large default_settings) (py_iter p)) big_triangle"
    by (simp add: big_triangle_def too_large_def default_settings_def)
  have f: "float_str sample_lib (max_coordinate default_settings) = ''1000000.0''"
    by (simp add: sample_lib_def default_settings_def)
  show ?thesis
    using h1 h2 h3 h4 h5 h6 f
      coordinate_too_large_rejected [OF h1 h2 h3 h4 h5 h6, of sample_lib "[]"]
    by simp
qed

section \<open>A failed creation writes nothing\<close>

text \<open>
  Claim C9. Whenever \<open>create_polygon\<close> raises a validation error, the table after the
  call is the table before it, and so is the listing: every check comes before
  \<open>save\<close>.
\<close>

theorem create_error_leaves_store:
  assumes "fst (create_polygon st lib db name ps) = Inl (ValueError msg)"
  shows "snd (create_polygon st lib db name ps) = db
         \<and> find_all lib (snd (create_polygon st lib db name ps)) = find_all lib db"
  using assms
  by (auto simp: create_polygon_def save_def Let_def split: if_splits option.splits)

theorem create_error_leaves_store_witness:
  "fst (create_polygon default_settings sample_lib [sample_row] [80]
         [PList [PInt 0, PInt 0], PList [PInt 1]])
     = Inl (ValueError ''Polygon must have at least 3 points'')
   \<and> snd (create_polygon default_settings sample_lib [sample_row] [80]
         [PList [PInt 0, PInt 0], PList [PInt 1]])
     = [sample_row]"
proof -
  have h: "fst (create_polygon default_settings sample_lib [sample_row] [80]
         [PList [PInt 0, PInt 0], PList [PInt 1]])
     = Inl (ValueError ''Polygon must have at least 3 points'')"
    by (simp add: create_polygon_def py_strip_def is_space_def default_settings_def)
  show ?thesis
    using h create_error_leaves_store [OF h] by simp
qed

section \<open>Boolean coordinates\<close>

text \<open>
  Claim C10. A boolean is a number for the coordinate check: when the configured
  maximum is at least 1, a points list whose coordinates are all booleans passes
  \<open>_validate_points\<close>, and with a valid name \<open>create_polygon\<close> succeeds and stores
  a row whose points column is the encoding of the booleans.
\<close>

theorem boolean_coordinates_accepted:
  assumes "py_strip name \<noteq> []" and "int (length name) \<le> max_name_length st"
    and "3 \<le> length ps" and "int (length ps) \<le> max_points_count st"
    and "list_all bool_point ps"
    and "fl_le (Finite 1) (max_coordinate st)"
  shows "validate_points st lib ps = None
    \<and> create_polygon st lib db name ps =
        (Inr (load lib \<lparr>row_id = next_rowid db, row_name = name,
                        row_points = json_dumps lib (PList ps)\<rparr>),
         insort_key row_id \<lparr>row_id = next_rowid db, row_name = name,
                            row_points = json_dumps lib (PList ps)\<rparr> db)"
proof -
  have "list_all (valid_point st) ps"
    using assms(5,6) bool_point_valid by (auto simp: list_all_iff)
  then have v: "validate_points st lib ps = None"
    using assms(4) by (rule validate_points_valid)
  then show ?thesis
    using create_polygon_saves [OF assms(1-3) v] by (simp add: save_new Let_def)
qed

theorem boolean_coordinates_accepted_witness:
  "py_strip [66] \<noteq> [] \<and> int (length [66::nat]) \<le> max_name_length default_settings
   \<and> 3 \<le> length bool_triangle \<and> int (length bool_triangle) \<le> max_points_count default_settings
   \<and> list_all bool_point bool_triangle
   \<and> fl_le (Finite 1) (max_coordinate default_settings)
   \<and> create_polygon default_settings sample_lib [] [66] bool_triangle =
       (Inr \<lparr>polygon_id = Some 1, polygon_name = [66], polygon_points = PList bool_triangle\<rparr>,
        [\<lparr>row_id = 1, row_name = [66],
          row_points = cps ''[[true, false], [true, true], [false, false]]''\<rparr>])"
proof -
  have h1: "py_strip [66] \<noteq> []" by (simp add: py_strip_def is_space_def)
  have h2: "int (length [66::nat]) \<le> max_name_length default_settings"
    by (simp add: default_settings_def)
  have h3: "3 \<le> length bool_triangle" by (simp add: bool_triangle_def)
  have h4: "int (length bool_triangle) \<le> max_points_count default_settings"
    by (simp add: bool_triangle_def default_settings_def)
  have h5: "list_all bool_point bool_triangle" by (simp add: bool_triangle_def)
  have h6: "fl_le (Finite 1) (max_coordinate default_settings)"
    by (simp add: default_settings_def)
  have j: "json_dumps sample_lib (PList bool_triangle) =
      cps ''[[true, false], [true, true], [false, false]]''"
    by (simp add: sample_lib_def sample_json_def triangle_def bool_triangle_def)
  have l: "json_loads sample_lib (cps ''[[true, false], [true, true], [false, false]]'') =
      Some (PList bool_triangle)"
    by (simp add: sample_lib_def sample_json_def cps_def)
  have s: "py_strip (cps ''[[true, false], [true, true], [false, false]]'') \<noteq> []"
    by (simp add: py_strip_def is_space_def cps_def)
  show ?thesis
    using h1 h2 h3 h4 h5 h6
      boolean_coordinates_accepted [OF h1 h2 h3 h4 h5 h6, of sample_lib "[]"]
    by (simp add: j l s load_def process_result_value_def)
qed

end
